theory Spec2Isabelle
  imports Main "HOL-Library.Sublist"
begin

section \<open>Strings and addresses\<close>

text \<open>
  Wallet addresses are ASCII text (\<open>0x\<close> followed by hexadecimal digits, a
  \<open>varchar(42)\<close> column in \<open>shared/schema.ts\<close>). \<open>String.prototype.toLowerCase\<close> is
  modelled on such text: each of the letters \<open>A\<close> to \<open>Z\<close> moves to its lower-case form,
  every other character stays.
\<close>

definition upper_lower :: "(char \<times> char) list" where
  "upper_lower = zip ''ABCDEFGHIJKLMNOPQRSTUVWXYZ'' ''abcdefghijklmnopqrstuvwxyz''"

definition toLowerChar :: "char \<Rightarrow> char" where
  "toLowerChar c = (case map_of upper_lower c of None \<Rightarrow> c | Some d \<Rightarrow> d)"

definition toLowerCase :: "string \<Rightarrow> string" where
  "toLowerCase s = map toLowerChar s"

text \<open>
  Two addresses are case variants of one another when they have the same length and, position
  by position, the same character or the upper-case and the lower-case form of one letter.
\<close>

definition same_letter :: "char \<Rightarrow> char \<Rightarrow> bool" where
  "same_letter c d =
     (c = d \<or> map_of upper_lower c = Some d \<or> map_of upper_lower d = Some c)"

definition case_variant :: "string \<Rightarrow> string \<Rightarrow> bool" where
  "case_variant a b = list_all2 same_letter a b"

text \<open>\<open>xs || []\<close> on the result of \<open>Map.get\<close>: an absent key reads as the empty array
  (an empty array that is present is truthy and is returned as it is).\<close>

definition orEmpty :: "'a list option \<Rightarrow> 'a list" where
  "orEmpty r = (case r of None \<Rightarrow> [] | Some xs \<Rightarrow> xs)"

text \<open>The object spread \<open>{ ...old, ...data }\<close>, field by field: a key that \<open>data\<close> has
  replaces the old value.\<close>

definition spread :: "'a \<Rightarrow> 'a option \<Rightarrow> 'a" where
  "spread old new = (case new of None \<Rightarrow> old | Some v \<Rightarrow> v)"

text \<open>\<open>x + 1\<close> on a \<open>number | null\<close> in JavaScript: \<open>null\<close> converts to 0.\<close>

definition js_plus1 :: "int option \<Rightarrow> int" where
  "js_plus1 x = (case x of None \<Rightarrow> 1 | Some n \<Rightarrow> n + 1)"

section \<open>The data model of \<open>shared/schema.ts\<close>\<close>

text \<open>
  One record per table, one field per column; the field names carry the entity as a prefix
  because several tables have columns of the same name. A column without \<open>notNull()\<close> has
  the type \<open>T | null\<close> and is an \<open>option\<close> here. Numbers are integers (\<open>int\<close>); a
  \<open>Date\<close> is its time in milliseconds. The \<open>timestamp\<close> of an activity is nullable in
  the schema, but the insert schema omits it, both stores fill it when the row is written
  (\<open>new Date()\<close>, \<open>defaultNow()\<close>) and no operation updates an activity, so the model
  keeps the value itself.
\<close>

record User =
  user_id :: int
  user_address :: string
  user_groupId :: "int option"
  user_totalDeposits :: "int option"
  user_creditScore :: "int option"
  user_lastDepositTime :: "int option"
  user_registered :: "bool option"
  user_isDefaulted :: "bool option"

record Group =
  group_id :: int
  group_name :: string
  group_admin :: string
  group_totalDeposits :: "int option"
  group_totalLoaned :: "int option"

record GroupMember =
  member_id :: int
  member_groupId :: int
  member_memberAddress :: string

record Loan =
  loan_id :: int
  loan_borrowerAddress :: string
  loan_amount :: int
  loan_dueDate :: int
  loan_repaid :: "bool option"
  loan_approved :: "bool option"
  loan_defaulted :: "bool option"
  loan_createdAt :: "int option"

record Guarantor =
  guarantor_id :: int
  guarantor_loanId :: int
  guarantor_guarantorAddress :: string
  guarantor_approved :: "bool option"

record Proposal =
  proposal_id :: int
  proposal_groupId :: int
  proposal_description :: string
  proposal_votesYes :: "int option"
  proposal_votesNo :: "int option"
  proposal_deadline :: int
  proposal_executed :: "bool option"
  proposal_createdAt :: "int option"

record Vote =
  vote_id :: int
  vote_proposalId :: int
  vote_voterAddress :: string
  vote_vote :: bool

record Activity =
  activity_id :: int
  activity_groupId :: int
  activity_userAddress :: string
  activity_activityType :: string
  activity_description :: string
  activity_timestamp :: int

text \<open>
  The insert types (\<open>createInsertSchema(...).omit(...)\<close>): the columns a caller supplies.
  An optional column is an \<open>option\<close>, \<open>None\<close> for a key that is left out.
\<close>

record InsertUser =
  iu_address :: string
  iu_groupId :: "int option"
  iu_totalDeposits :: "int option"
  iu_creditScore :: "int option"
  iu_lastDepositTime :: "int option"
  iu_registered :: "bool option"
  iu_isDefaulted :: "bool option"

record InsertGroup =
  ig_name :: string
  ig_admin :: string

record InsertGroupMember =
  im_groupId :: int
  im_memberAddress :: string

record InsertLoan =
  il_borrowerAddress :: string
  il_amount :: int
  il_dueDate :: int
  il_repaid :: "bool option"
  il_approved :: "bool option"
  il_defaulted :: "bool option"

record InsertGuarantor =
  iq_loanId :: int
  iq_guarantorAddress :: string
  iq_approved :: "bool option"

record InsertProposal =
  ip_groupId :: int
  ip_description :: string
  ip_deadline :: int

record InsertVote =
  iv_proposalId :: int
  iv_voterAddress :: string
  iv_vote :: bool

record InsertActivity =
  ia_groupId :: int
  ia_userAddress :: string
  ia_activityType :: string
  ia_description :: string

text \<open>
  \<open>Partial<T>\<close>, the payload of the update operations: every key may be absent
  (\<open>None\<close>); a key that is present carries a value of the column's type.
\<close>

record PartialUser =
  pu_id :: "int option"
  pu_address :: "string option"
  pu_groupId :: "int option option"
  pu_totalDeposits :: "int option option"
  pu_creditScore :: "int option option"
  pu_lastDepositTime :: "int option option"
  pu_registered :: "bool option option"
  pu_isDefaulted :: "bool option option"

record PartialGroup =
  pg_id :: "int option"
  pg_name :: "string option"
  pg_admin :: "string option"
  pg_totalDeposits :: "int option option"
  pg_totalLoaned :: "int option option"

record PartialLoan =
  pl_id :: "int option"
  pl_borrowerAddress :: "string option"
  pl_amount :: "int option"
  pl_dueDate :: "int option"
  pl_repaid :: "bool option option"
  pl_approved :: "bool option option"
  pl_defaulted :: "bool option option"
  pl_createdAt :: "int option option"

record PartialProposal =
  pp_id :: "int option"
  pp_groupId :: "int option"
  pp_description :: "string option"
  pp_votesYes :: "int option option"
  pp_votesNo :: "int option option"
  pp_deadline :: "int option"
  pp_executed :: "bool option option"
  pp_createdAt :: "int option option"

definition spread_User :: "User \<Rightarrow> PartialUser \<Rightarrow> User" where
  "spread_User u d =
     \<lparr> user_id = spread (user_id u) (pu_id d),
       user_address = spread (user_address u) (pu_address d),
       user_groupId = spread (user_groupId u) (pu_groupId d),
       user_totalDeposits = spread (user_totalDeposits u) (pu_totalDeposits d),
       user_creditScore = spread (user_creditScore u) (pu_creditScore d),
       user_lastDepositTime = spread (user_lastDepositTime u) (pu_lastDepositTime d),
       user_registered = spread (user_registered u) (pu_registered d),
       user_isDefaulted = spread (user_isDefaulted u) (pu_isDefaulted d) \<rparr>"

definition spread_Group :: "Group \<Rightarrow> PartialGroup \<Rightarrow> Group" where
  "spread_Group g d =
     \<lparr> group_id = spread (group_id g) (pg_id d),
       group_name = spread (group_name g) (pg_name d),
       group_admin = spread (group_admin g) (pg_admin d),
       group_totalDeposits = spread (group_totalDeposits g) (pg_totalDeposits d),
       group_totalLoaned = spread (group_totalLoaned g) (pg_totalLoaned d) \<rparr>"

definition spread_Loan :: "Loan \<Rightarrow> PartialLoan \<Rightarrow> Loan" where
  "spread_Loan l d =
     \<lparr> loan_id = spread (loan_id l) (pl_id d),
       loan_borrowerAddress = spread (loan_borrowerAddress l) (pl_borrowerAddress d),
       loan_amount = spread (loan_amount l) (pl_amount d),
       loan_dueDate = spread (loan_dueDate l) (pl_dueDate d),
       loan_repaid = spread (loan_repaid l) (pl_repaid d),
       loan_approved = spread (loan_approved l) (pl_approved d),
       loan_defaulted = spread (loan_defaulted l) (pl_defaulted d),
       loan_createdAt = spread (loan_createdAt l) (pl_createdAt d) \<rparr>"

definition spread_Proposal :: "Proposal \<Rightarrow> PartialProposal \<Rightarrow> Proposal" where
  "spread_Proposal p d =
     \<lparr> proposal_id = spread (proposal_id p) (pp_id d),
       proposal_groupId = spread (proposal_groupId p) (pp_groupId d),
       proposal_description = spread (proposal_description p) (pp_description d),
       proposal_votesYes = spread (proposal_votesYes p) (pp_votesYes d),
       proposal_votesNo = spread (proposal_votesNo p) (pp_votesNo d),
       proposal_deadline = spread (proposal_deadline p) (pp_deadline d),
       proposal_executed = spread (proposal_executed p) (pp_executed d),
       proposal_createdAt = spread (proposal_createdAt p) (pp_createdAt d) \<rparr>"

section \<open>\<open>MemStorage\<close>: the in-memory store of \<open>server/storage.ts\<close>\<close>

text \<open>
  The class keeps one \<open>Map\<close> per entity and a counter per entity kind. Each method is a
  function from the state before the call to the value the promise resolves to and the state
  after it. No method of the class throws on values of its parameter types, so there is no
  error branch. The arrays are changed in place, but each is reached through one key of one
  map only and the handlers of \<open>routes.ts\<close> only read what the getters return; the
  stored objects are replaced, never mutated. So the maps hold values. \<open>new Date()\<close> is
  the parameter \<open>now\<close>.
\<close>

record CurrentIds =
  cid_user :: int
  cid_group :: int
  cid_groupMember :: int
  cid_loan :: int
  cid_guarantor :: int
  cid_proposal :: int
  cid_vote :: int
  cid_activity :: int

record MemStorage =
  users :: "string \<rightharpoonup> User"
  groups :: "int \<rightharpoonup> Group"
  groupMembers :: "int \<rightharpoonup> GroupMember list"
  loans :: "int \<rightharpoonup> Loan"
  loansByBorrower :: "string \<rightharpoonup> int list"
  guarantors :: "int \<rightharpoonup> Guarantor list"
  proposals :: "int \<rightharpoonup> Proposal"
  proposalsByGroup :: "int \<rightharpoonup> int list"
  votes :: "int \<rightharpoonup> Vote list"
  activities :: "int \<rightharpoonup> Activity list"
  currentIds :: CurrentIds

definition MemStorage_new :: MemStorage where
  "MemStorage_new =
     \<lparr> users = Map.empty, groups = Map.empty, groupMembers = Map.empty, loans = Map.empty,
       loansByBorrower = Map.empty, guarantors = Map.empty, proposals = Map.empty,
       proposalsByGroup = Map.empty, votes = Map.empty, activities = Map.empty,
       currentIds = \<lparr> cid_user = 1, cid_group = 1, cid_groupMember = 1, cid_loan = 1,
         cid_guarantor = 1, cid_proposal = 1, cid_vote = 1, cid_activity = 1 \<rparr> \<rparr>"

subsection \<open>Users\<close>

definition MemStorage_getUser :: "MemStorage \<Rightarrow> string \<Rightarrow> User option" where
  "MemStorage_getUser s address = users s (toLowerCase address)"

definition MemStorage_createUser :: "InsertUser \<Rightarrow> MemStorage \<Rightarrow> User \<times> MemStorage" where
  "MemStorage_createUser userData s =
     (let id = cid_user (currentIds s);
          address = toLowerCase (iu_address userData);
          user = \<lparr> user_id = id, user_address = address,
                   user_groupId = iu_groupId userData,
                   user_totalDeposits = iu_totalDeposits userData,
                   user_creditScore = iu_creditScore userData,
                   user_lastDepositTime = iu_lastDepositTime userData,
                   user_registered = iu_registered userData,
                   user_isDefaulted = iu_isDefaulted userData \<rparr>
      in (user, s\<lparr> users := (users s)(address \<mapsto> user),
                     currentIds := (currentIds s)\<lparr> cid_user := id + 1 \<rparr> \<rparr>))"

definition MemStorage_updateUser ::
  "string \<Rightarrow> PartialUser \<Rightarrow> MemStorage \<Rightarrow> User option \<times> MemStorage" where
  "MemStorage_updateUser address data s =
     (case MemStorage_getUser s address of
        None \<Rightarrow> (None, s)
      | Some user \<Rightarrow>
          (let updatedUser = spread_User user data
           in (Some updatedUser, s\<lparr> users := (users s)(toLowerCase address \<mapsto> updatedUser) \<rparr>)))"

subsection \<open>Groups and members\<close>

definition MemStorage_getGroup :: "MemStorage \<Rightarrow> int \<Rightarrow> Group option" where
  "MemStorage_getGroup s ident = groups s ident"

definition MemStorage_addGroupMember ::
  "InsertGroupMember \<Rightarrow> MemStorage \<Rightarrow> GroupMember \<times> MemStorage" where
  "MemStorage_addGroupMember memberData s =
     (let id = cid_groupMember (currentIds s);
          member = \<lparr> member_id = id, member_groupId = im_groupId memberData,
                     member_memberAddress = im_memberAddress memberData \<rparr>;
          members = orEmpty (groupMembers s (im_groupId memberData))
      in (member, s\<lparr> groupMembers := (groupMembers s)(im_groupId memberData \<mapsto> members @ [member]),
                       currentIds := (currentIds s)\<lparr> cid_groupMember := id + 1 \<rparr> \<rparr>))"

definition MemStorage_createGroup :: "InsertGroup \<Rightarrow> MemStorage \<Rightarrow> Group \<times> MemStorage" where
  "MemStorage_createGroup groupData s =
     (let id = cid_group (currentIds s);
          grp = \<lparr> group_id = id, group_name = ig_name groupData, group_admin = ig_admin groupData,
                    group_totalDeposits = Some 0, group_totalLoaned = Some 0 \<rparr>;
          s1 = s\<lparr> groups := (groups s)(id \<mapsto> grp),
                  groupMembers := (groupMembers s)(id \<mapsto> []),
                  proposalsByGroup := (proposalsByGroup s)(id \<mapsto> []),
                  currentIds := (currentIds s)\<lparr> cid_group := id + 1 \<rparr> \<rparr>;
          s2 = snd (MemStorage_addGroupMember
                      \<lparr> im_groupId = id, im_memberAddress = ig_admin groupData \<rparr> s1)
      in (grp, s2))"

definition MemStorage_updateGroup ::
  "int \<Rightarrow> PartialGroup \<Rightarrow> MemStorage \<Rightarrow> Group option \<times> MemStorage" where
  "MemStorage_updateGroup ident data s =
     (case MemStorage_getGroup s ident of
        None \<Rightarrow> (None, s)
      | Some grp \<Rightarrow>
          (let updatedGroup = spread_Group grp data
           in (Some updatedGroup, s\<lparr> groups := (groups s)(ident \<mapsto> updatedGroup) \<rparr>)))"

text \<open>The loop of \<open>getGroupMembers\<close>: the users found for the members, in the members' order.\<close>

definition MemStorage_getGroupMembers :: "MemStorage \<Rightarrow> int \<Rightarrow> User list" where
  "MemStorage_getGroupMembers s groupId =
     List.map_filter (\<lambda>member. MemStorage_getUser s (member_memberAddress member))
       (orEmpty (groupMembers s groupId))"

definition MemStorage_isGroupMember :: "MemStorage \<Rightarrow> int \<Rightarrow> string \<Rightarrow> bool" where
  "MemStorage_isGroupMember s groupId address =
     list_ex (\<lambda>m. toLowerCase (member_memberAddress m) = toLowerCase address)
       (orEmpty (groupMembers s groupId))"

subsection \<open>Loans and guarantors\<close>

definition MemStorage_getLoan :: "MemStorage \<Rightarrow> int \<Rightarrow> Loan option" where
  "MemStorage_getLoan s ident = loans s ident"

definition MemStorage_getUserLoans :: "MemStorage \<Rightarrow> string \<Rightarrow> Loan list" where
  "MemStorage_getUserLoans s address =
     List.map_filter (MemStorage_getLoan s) (orEmpty (loansByBorrower s (toLowerCase address)))"

definition MemStorage_createLoan :: "int \<Rightarrow> InsertLoan \<Rightarrow> MemStorage \<Rightarrow> Loan \<times> MemStorage" where
  "MemStorage_createLoan now loanData s =
     (let id = cid_loan (currentIds s);
          loan = \<lparr> loan_id = id, loan_borrowerAddress = il_borrowerAddress loanData,
                   loan_amount = il_amount loanData, loan_dueDate = il_dueDate loanData,
                   loan_repaid = il_repaid loanData, loan_approved = il_approved loanData,
                   loan_defaulted = il_defaulted loanData, loan_createdAt = Some now \<rparr>;
          borrower = toLowerCase (il_borrowerAddress loanData);
          loanIds = orEmpty (loansByBorrower s borrower)
      in (loan, s\<lparr> loans := (loans s)(id \<mapsto> loan),
                     loansByBorrower := (loansByBorrower s)(borrower \<mapsto> loanIds @ [id]),
                     guarantors := (guarantors s)(id \<mapsto> []),
                     currentIds := (currentIds s)\<lparr> cid_loan := id + 1 \<rparr> \<rparr>))"

definition MemStorage_updateLoan ::
  "int \<Rightarrow> PartialLoan \<Rightarrow> MemStorage \<Rightarrow> Loan option \<times> MemStorage" where
  "MemStorage_updateLoan ident data s =
     (case MemStorage_getLoan s ident of
        None \<Rightarrow> (None, s)
      | Some loan \<Rightarrow>
          (let updatedLoan = spread_Loan loan data
           in (Some updatedLoan, s\<lparr> loans := (loans s)(ident \<mapsto> updatedLoan) \<rparr>)))"


definition MemStorage_addGuarantor ::
  "InsertGuarantor \<Rightarrow> MemStorage \<Rightarrow> Guarantor \<times> MemStorage" where
  "MemStorage_addGuarantor guarantorData s =
     (let id = cid_guarantor (currentIds s);
          guarantor = \<lparr> guarantor_id = id, guarantor_loanId = iq_loanId guarantorData,
                        guarantor_guarantorAddress = iq_guarantorAddress guarantorData,
                        guarantor_approved = iq_approved guarantorData \<rparr>;
          gs = orEmpty (guarantors s (iq_loanId guarantorData))
      in (guarantor, s\<lparr> guarantors := (guarantors s)(iq_loanId guarantorData \<mapsto> gs @ [guarantor]),
                          currentIds := (currentIds s)\<lparr> cid_guarantor := id + 1 \<rparr> \<rparr>))"

text \<open>\<open>Array.prototype.findIndex\<close>: the first position that satisfies the predicate,
  \<open>None\<close> for the result \<open>-1\<close>.\<close>

fun findIndex :: "('a \<Rightarrow> bool) \<Rightarrow> 'a list \<Rightarrow> nat option" where
  "findIndex P [] = None"
| "findIndex P (x # xs) =
     (if P x then Some 0 else (case findIndex P xs of None \<Rightarrow> None | Some i \<Rightarrow> Some (Suc i)))"

definition MemStorage_updateGuarantor ::
  "int \<Rightarrow> string \<Rightarrow> bool \<Rightarrow> MemStorage \<Rightarrow> Guarantor option \<times> MemStorage" where
  "MemStorage_updateGuarantor loanId address approved s =
     (let gs = orEmpty (guarantors s loanId)
      in case findIndex (\<lambda>g. toLowerCase (guarantor_guarantorAddress g) = toLowerCase address) gs of
           None \<Rightarrow> (None, s)
         | Some index \<Rightarrow>
             (let updatedGuarantor = (gs ! index)\<lparr> guarantor_approved := Some approved \<rparr>
              in (Some updatedGuarantor,
                  s\<lparr> guarantors := (guarantors s)(loanId \<mapsto> gs[index := updatedGuarantor]) \<rparr>)))"

subsection \<open>Proposals and votes\<close>

definition MemStorage_getProposal :: "MemStorage \<Rightarrow> int \<Rightarrow> Proposal option" where
  "MemStorage_getProposal s ident = proposals s ident"

definition MemStorage_getGroupProposals :: "MemStorage \<Rightarrow> int \<Rightarrow> Proposal list" where
  "MemStorage_getGroupProposals s groupId =
     List.map_filter (MemStorage_getProposal s) (orEmpty (proposalsByGroup s groupId))"

definition MemStorage_createProposal ::
  "int \<Rightarrow> InsertProposal \<Rightarrow> MemStorage \<Rightarrow> Proposal \<times> MemStorage" where
  "MemStorage_createProposal now proposalData s =
     (let id = cid_proposal (currentIds s);
          proposal = \<lparr> proposal_id = id, proposal_groupId = ip_groupId proposalData,
                       proposal_description = ip_description proposalData,
                       proposal_votesYes = Some 0, proposal_votesNo = Some 0,
                       proposal_deadline = ip_deadline proposalData,
                       proposal_executed = Some False, proposal_createdAt = Some now \<rparr>;
          proposalIds = orEmpty (proposalsByGroup s (ip_groupId proposalData))
      in (proposal,
          s\<lparr> proposals := (proposals s)(id \<mapsto> proposal),
             proposalsByGroup := (proposalsByGroup s)(ip_groupId proposalData \<mapsto> proposalIds @ [id]),
             votes := (votes s)(id \<mapsto> []),
             currentIds := (currentIds s)\<lparr> cid_proposal := id + 1 \<rparr> \<rparr>))"

definition MemStorage_updateProposal ::
  "int \<Rightarrow> PartialProposal \<Rightarrow> MemStorage \<Rightarrow> Proposal option \<times> MemStorage" where
  "MemStorage_updateProposal ident data s =
     (case MemStorage_getProposal s ident of
        None \<Rightarrow> (None, s)
      | Some proposal \<Rightarrow>
          (let updatedProposal = spread_Proposal proposal data
           in (Some updatedProposal, s\<lparr> proposals := (proposals s)(ident \<mapsto> updatedProposal) \<rparr>)))"

definition MemStorage_getVotes :: "MemStorage \<Rightarrow> int \<Rightarrow> Vote list" where
  "MemStorage_getVotes s proposalId = orEmpty (votes s proposalId)"

text \<open>The payload \<open>{ votesYes, votesNo }\<close> that \<open>addVote\<close> hands to \<open>updateProposal\<close>.\<close>

definition tally_update :: "int option \<Rightarrow> int option \<Rightarrow> PartialProposal" where
  "tally_update votesYes votesNo =
     \<lparr> pp_id = None, pp_groupId = None, pp_description = None,
       pp_votesYes = Some votesYes, pp_votesNo = Some votesNo,
       pp_deadline = None, pp_executed = None, pp_createdAt = None \<rparr>"

definition MemStorage_addVote :: "InsertVote \<Rightarrow> MemStorage \<Rightarrow> Vote \<times> MemStorage" where
  "MemStorage_addVote voteData s =
     (let id = cid_vote (currentIds s);
          vote = \<lparr> vote_id = id, vote_proposalId = iv_proposalId voteData,
                   vote_voterAddress = iv_voterAddress voteData, vote_vote = iv_vote voteData \<rparr>;
          vs = orEmpty (votes s (iv_proposalId voteData));
          s1 = s\<lparr> votes := (votes s)(iv_proposalId voteData \<mapsto> vs @ [vote]),
                  currentIds := (currentIds s)\<lparr> cid_vote := id + 1 \<rparr> \<rparr>
      in case MemStorage_getProposal s1 (iv_proposalId voteData) of
           None \<Rightarrow> (vote, s1)
         | Some proposal \<Rightarrow>
             (let votesYes = (if iv_vote voteData then Some (js_plus1 (proposal_votesYes proposal))
                              else proposal_votesYes proposal);
                  votesNo = (if \<not> iv_vote voteData then Some (js_plus1 (proposal_votesNo proposal))
                             else proposal_votesNo proposal)
              in (vote, snd (MemStorage_updateProposal (iv_proposalId voteData)
                               (tally_update votesYes votesNo) s1))))"

definition MemStorage_hasVoted :: "MemStorage \<Rightarrow> int \<Rightarrow> string \<Rightarrow> bool" where
  "MemStorage_hasVoted s proposalId address =
     list_ex (\<lambda>v. toLowerCase (vote_voterAddress v) = toLowerCase address)
       (orEmpty (votes s proposalId))"

subsection \<open>Activities\<close>



definition MemStorage_addActivity ::
  "int \<Rightarrow> InsertActivity \<Rightarrow> MemStorage \<Rightarrow> Activity \<times> MemStorage" where
  "MemStorage_addActivity now activityData s =
     (let id = cid_activity (currentIds s);
          activity = \<lparr> activity_id = id, activity_groupId = ia_groupId activityData,
                       activity_userAddress = ia_userAddress activityData,
                       activity_activityType = ia_activityType activityData,
                       activity_description = ia_description activityData,
                       activity_timestamp = now \<rparr>;
          acts = orEmpty (activities s (ia_groupId activityData))
      in (activity, s\<lparr> activities := (activities s)(ia_groupId activityData \<mapsto> acts @ [activity]),
                         currentIds := (currentIds s)\<lparr> cid_activity := id + 1 \<rparr> \<rparr>))"

subsection \<open>The writing operations of the interface\<close>

text \<open>
  The methods of \<open>IStorage\<close> that change the store, one constructor each; there is no
  operation that deletes. The other methods of the interface (\<open>getUser\<close>,
  \<open>getGroup\<close>, \<open>getGroups\<close>, \<open>getGroupMembers\<close>, \<open>isGroupMember\<close>,
  \<open>getUserGroup\<close>, \<open>getLoan\<close>, \<open>getUserLoans\<close>, \<open>getLoanGuarantors\<close>,
  \<open>getProposal\<close>, \<open>getGroupProposals\<close>, \<open>getVotes\<close>, \<open>hasVoted\<close>,
  \<open>getGroupActivities\<close>) only read. \<open>MemStorage_apply\<close> is the store after a call.
\<close>

datatype storage_write =
    CreateUser InsertUser
  | UpdateUser string PartialUser
  | CreateGroup InsertGroup
  | UpdateGroup int PartialGroup
  | AddGroupMember InsertGroupMember
  | CreateLoan int InsertLoan
  | UpdateLoan int PartialLoan
  | AddGuarantor InsertGuarantor
  | UpdateGuarantor int string bool
  | CreateProposal int InsertProposal
  | UpdateProposal int PartialProposal
  | AddVote InsertVote
  | AddActivity int InsertActivity

fun MemStorage_apply :: "storage_write \<Rightarrow> MemStorage \<Rightarrow> MemStorage" where
  "MemStorage_apply (CreateUser userData) s = snd (MemStorage_createUser userData s)"
| "MemStorage_apply (UpdateUser address data) s = snd (MemStorage_updateUser address data s)"
| "MemStorage_apply (CreateGroup groupData) s = snd (MemStorage_createGroup groupData s)"
| "MemStorage_apply (UpdateGroup ident data) s = snd (MemStorage_updateGroup ident data s)"
| "MemStorage_apply (AddGroupMember memberData) s = snd (MemStorage_addGroupMember memberData s)"
| "MemStorage_apply (CreateLoan now loanData) s = snd (MemStorage_createLoan now loanData s)"
| "MemStorage_apply (UpdateLoan ident data) s = snd (MemStorage_updateLoan ident data s)"
| "MemStorage_apply (AddGuarantor guarantorData) s = snd (MemStorage_addGuarantor guarantorData s)"
| "MemStorage_apply (UpdateGuarantor loanId address approved) s =
     snd (MemStorage_updateGuarantor loanId address approved s)"
| "MemStorage_apply (CreateProposal now proposalData) s =
     snd (MemStorage_createProposal now proposalData s)"
| "MemStorage_apply (UpdateProposal ident data) s = snd (MemStorage_updateProposal ident data s)"
| "MemStorage_apply (AddVote voteData) s = snd (MemStorage_addVote voteData s)"
| "MemStorage_apply (AddActivity now activityData) s = snd (MemStorage_addActivity now activityData s)"




section \<open>\<open>DatabaseStorage\<close>: the relational store of \<open>server/storage.ts\<close>\<close>

text \<open>
  The class sends every call to the database through the query builder. The database is
  modelled as the eight tables of \<open>shared/schema.ts\<close>, each the list of its rows in
  the order they were written, and one sequence per \<open>serial\<close> column. A statement that
  the database refuses (a promise that rejects) is an error value; it leaves every table as it
  was, and so does a transaction in which one statement is refused (the numbers such a
  statement has drawn from a sequence are not tracked). The constraints are those the schema
  declares: the primary keys, the unique address of a user and the lengths of the
  \<open>varchar\<close> columns. A value longer than its column is refused; the rule of the
  database that cuts excess characters when all of them are blanks is not modelled. A column
  that the insert leaves out takes its declared default; an explicit \<open>null\<close> for such a
  column is not modelled. \<open>defaultNow()\<close> is the parameter \<open>now\<close>. Without
  \<open>ORDER BY\<close> a query is taken to return the rows in table order.
\<close>

datatype db_error =
    UniqueViolation string
  | StringTooLong string
  | UndefinedColumn string
  | UndefinedOperator string
  | NoValuesToSet

record Database =
  tbl_users :: "User list"
  tbl_groups :: "Group list"
  tbl_groupMembers :: "GroupMember list"
  tbl_loans :: "Loan list"
  tbl_guarantors :: "Guarantor list"
  tbl_proposals :: "Proposal list"
  tbl_votes :: "Vote list"
  tbl_activities :: "Activity list"
  seq_users :: int
  seq_groups :: int
  seq_groupMembers :: int
  seq_loans :: int
  seq_guarantors :: int
  seq_proposals :: int
  seq_votes :: int
  seq_activities :: int

definition Database_new :: Database where
  "Database_new =
     \<lparr> tbl_users = [], tbl_groups = [], tbl_groupMembers = [], tbl_loans = [],
       tbl_guarantors = [], tbl_proposals = [], tbl_votes = [], tbl_activities = [],
       seq_users = 1, seq_groups = 1, seq_groupMembers = 1, seq_loans = 1,
       seq_guarantors = 1, seq_proposals = 1, seq_votes = 1, seq_activities = 1 \<rparr>"

text \<open>A column default: the value given, or the default when the key is left out.\<close>

definition orDefault :: "'a \<Rightarrow> 'a option \<Rightarrow> 'a option" where
  "orDefault d v = (case v of None \<Rightarrow> Some d | Some x \<Rightarrow> Some x)"

subsection \<open>Users\<close>

definition DatabaseStorage_getUser :: "Database \<Rightarrow> string \<Rightarrow> User option" where
  "DatabaseStorage_getUser s address =
     find (\<lambda>u. user_address u = toLowerCase address) (tbl_users s)"

definition DatabaseStorage_createUser ::
  "int \<Rightarrow> InsertUser \<Rightarrow> Database \<Rightarrow> db_error + User \<times> Database" where
  "DatabaseStorage_createUser now userData s =
     (let address = toLowerCase (iu_address userData);
          user = \<lparr> user_id = seq_users s, user_address = address,
                   user_groupId = iu_groupId userData,
                   user_totalDeposits = orDefault 0 (iu_totalDeposits userData),
                   user_creditScore = orDefault 100 (iu_creditScore userData),
                   user_lastDepositTime = orDefault now (iu_lastDepositTime userData),
                   user_registered = orDefault False (iu_registered userData),
                   user_isDefaulted = orDefault False (iu_isDefaulted userData) \<rparr>
      in if 42 < length address then Inl (StringTooLong ''address'')
         else if list_ex (\<lambda>u. user_id u = user_id user) (tbl_users s)
           then Inl (UniqueViolation ''users_pkey'')
         else if list_ex (\<lambda>u. user_address u = address) (tbl_users s)
           then Inl (UniqueViolation ''users_address_unique'')
         else Inr (user, s\<lparr> tbl_users := tbl_users s @ [user], seq_users := seq_users s + 1 \<rparr>))"

subsection \<open>Groups and members\<close>

definition insert_groupMember ::
  "InsertGroupMember \<Rightarrow> Database \<Rightarrow> db_error + GroupMember \<times> Database" where
  "insert_groupMember values s =
     (let member = \<lparr> member_id = seq_groupMembers s, member_groupId = im_groupId values,
                     member_memberAddress = im_memberAddress values \<rparr>
      in if 42 < length (im_memberAddress values) then Inl (StringTooLong ''member_address'')
         else if list_ex (\<lambda>m. member_id m = member_id member) (tbl_groupMembers s)
           then Inl (UniqueViolation ''group_members_pkey'')
         else Inr (member, s\<lparr> tbl_groupMembers := tbl_groupMembers s @ [member],
                                seq_groupMembers := seq_groupMembers s + 1 \<rparr>))"

definition DatabaseStorage_addGroupMember ::
  "InsertGroupMember \<Rightarrow> Database \<Rightarrow> db_error + GroupMember \<times> Database" where
  "DatabaseStorage_addGroupMember memberData s =
     insert_groupMember
       (memberData\<lparr> im_memberAddress := toLowerCase (im_memberAddress memberData) \<rparr>) s"

definition DatabaseStorage_createGroup ::
  "InsertGroup \<Rightarrow> Database \<Rightarrow> db_error + Group \<times> Database" where
  "DatabaseStorage_createGroup groupData s =
     (let grp = \<lparr> group_id = seq_groups s, group_name = ig_name groupData,
                  group_admin = ig_admin groupData,
                  group_totalDeposits = Some 0, group_totalLoaned = Some 0 \<rparr>
      in if 42 < length (ig_admin groupData) then Inl (StringTooLong ''admin'')
         else if list_ex (\<lambda>g. group_id g = group_id grp) (tbl_groups s)
           then Inl (UniqueViolation ''groups_pkey'')
         else (case insert_groupMember
                      \<lparr> im_groupId = group_id grp,
                        im_memberAddress = toLowerCase (ig_admin groupData) \<rparr>
                      (s\<lparr> tbl_groups := tbl_groups s @ [grp], seq_groups := seq_groups s + 1 \<rparr>) of
                 Inl e \<Rightarrow> Inl e
               | Inr (member, s') \<Rightarrow> Inr (grp, s')))"

definition DatabaseStorage_isGroupMember :: "Database \<Rightarrow> int \<Rightarrow> string \<Rightarrow> bool" where
  "DatabaseStorage_isGroupMember s groupId address =
     list_ex (\<lambda>m. member_groupId m = groupId \<and> member_memberAddress m = toLowerCase address)
       (tbl_groupMembers s)"

subsection \<open>Loans and guarantors\<close>

definition DatabaseStorage_createLoan ::
  "int \<Rightarrow> InsertLoan \<Rightarrow> Database \<Rightarrow> db_error + Loan \<times> Database" where
  "DatabaseStorage_createLoan now loanData s =
     (let borrower = toLowerCase (il_borrowerAddress loanData);
          loan = \<lparr> loan_id = seq_loans s, loan_borrowerAddress = borrower,
                   loan_amount = il_amount loanData, loan_dueDate = il_dueDate loanData,
                   loan_repaid = orDefault False (il_repaid loanData),
                   loan_approved = orDefault False (il_approved loanData),
                   loan_defaulted = orDefault False (il_defaulted loanData),
                   loan_createdAt = Some now \<rparr>
      in if 42 < length borrower then Inl (StringTooLong ''borrower_address'')
         else if list_ex (\<lambda>l. loan_id l = loan_id loan) (tbl_loans s)
           then Inl (UniqueViolation ''loans_pkey'')
         else Inr (loan, s\<lparr> tbl_loans := tbl_loans s @ [loan], seq_loans := seq_loans s + 1 \<rparr>))"

definition DatabaseStorage_addGuarantor ::
  "InsertGuarantor \<Rightarrow> Database \<Rightarrow> db_error + Guarantor \<times> Database" where
  "DatabaseStorage_addGuarantor guarantorData s =
     (let address = toLowerCase (iq_guarantorAddress guarantorData);
          guarantor = \<lparr> guarantor_id = seq_guarantors s,
                        guarantor_loanId = iq_loanId guarantorData,
                        guarantor_guarantorAddress = address,
                        guarantor_approved = orDefault False (iq_approved guarantorData) \<rparr>
      in if 42 < length address then Inl (StringTooLong ''guarantor_address'')
         else if list_ex (\<lambda>g. guarantor_id g = guarantor_id guarantor) (tbl_guarantors s)
           then Inl (UniqueViolation ''guarantors_pkey'')
         else Inr (guarantor, s\<lparr> tbl_guarantors := tbl_guarantors s @ [guarantor],
                                   seq_guarantors := seq_guarantors s + 1 \<rparr>))"

subsection \<open>Proposals and votes\<close>

definition DatabaseStorage_getProposal :: "Database \<Rightarrow> int \<Rightarrow> Proposal option" where
  "DatabaseStorage_getProposal s ident = find (\<lambda>p. proposal_id p = ident) (tbl_proposals s)"

definition DatabaseStorage_getVotes :: "Database \<Rightarrow> int \<Rightarrow> Vote list" where
  "DatabaseStorage_getVotes s proposalId =
     filter (\<lambda>v. vote_proposalId v = proposalId) (tbl_votes s)"

definition DatabaseStorage_hasVoted :: "Database \<Rightarrow> int \<Rightarrow> string \<Rightarrow> bool" where
  "DatabaseStorage_hasVoted s proposalId address =
     list_ex (\<lambda>v. vote_proposalId v = proposalId \<and> vote_voterAddress v = toLowerCase address)
       (tbl_votes s)"

text \<open>
  The raw fragments \<open>sql`"votesYes" + 1`\<close> and \<open>sql`"votesNo" + 1`\<close> of \<open>addVote\<close>: a
  quoted identifier plus a number. The database resolves the identifier among the columns of
  the table being updated, which \<open>pgTable("proposals", ...)\<close> names \<open>id\<close>,
  \<open>group_id\<close>, \<open>description\<close>, \<open>votes_yes\<close>, \<open>votes_no\<close>, \<open>deadline\<close>,
  \<open>executed\<close> and \<open>created_at\<close>. A name that is none of them is refused, and so is
  \<open>+\<close> on a column that is not a number; on a number column the sum of a null is null.
\<close>

datatype sql_fragment = ColumnPlus string int

definition proposals_columns :: "string list" where
  "proposals_columns =
     [''id'', ''group_id'', ''description'', ''votes_yes'', ''votes_no'', ''deadline'',
      ''executed'', ''created_at'']"

definition proposals_integer_column :: "string \<Rightarrow> (Proposal \<Rightarrow> int option) option" where
  "proposals_integer_column name =
     (if name = ''id'' then Some (\<lambda>p. Some (proposal_id p))
      else if name = ''group_id'' then Some (\<lambda>p. Some (proposal_groupId p))
      else if name = ''votes_yes'' then Some proposal_votesYes
      else if name = ''votes_no'' then Some proposal_votesNo
      else None)"

fun eval_proposals_fragment :: "sql_fragment \<Rightarrow> db_error + (Proposal \<Rightarrow> int option)" where
  "eval_proposals_fragment (ColumnPlus name n) =
     (if name \<notin> set proposals_columns then Inl (UndefinedColumn name)
      else (case proposals_integer_column name of
              None \<Rightarrow> Inl (UndefinedOperator name)
            | Some column \<Rightarrow> Inr (\<lambda>p. map_option (\<lambda>v. v + n) (column p))))"

text \<open>\<open>update(proposals).set({ key: fragment }).where(eq(proposals.id, id))\<close>; \<open>assign\<close>
  writes the column that the key of \<open>set\<close> stands for.\<close>

definition update_proposals_set ::
  "(Proposal \<Rightarrow> int option \<Rightarrow> Proposal) \<Rightarrow> sql_fragment \<Rightarrow> int \<Rightarrow> Database \<Rightarrow> db_error + Database" where
  "update_proposals_set assign fragment ident s =
     (case eval_proposals_fragment fragment of
        Inl e \<Rightarrow> Inl e
      | Inr value \<Rightarrow>
          Inr (s\<lparr> tbl_proposals :=
                   map (\<lambda>p. if proposal_id p = ident then assign p (value p) else p)
                     (tbl_proposals s) \<rparr>))"

definition DatabaseStorage_addVote ::
  "InsertVote \<Rightarrow> Database \<Rightarrow> db_error + Vote \<times> Database" where
  "DatabaseStorage_addVote voteData s =
     (let address = toLowerCase (iv_voterAddress voteData);
          vote = \<lparr> vote_id = seq_votes s, vote_proposalId = iv_proposalId voteData,
                   vote_voterAddress = address, vote_vote = iv_vote voteData \<rparr>
      in if 42 < length address then Inl (StringTooLong ''voter_address'')
         else if list_ex (\<lambda>v. vote_id v = vote_id vote) (tbl_votes s)
           then Inl (UniqueViolation ''votes_pkey'')
         else (case (if iv_vote voteData
                     then update_proposals_set (\<lambda>p v. p\<lparr> proposal_votesYes := v \<rparr>)
                            (ColumnPlus ''votesYes'' 1) (iv_proposalId voteData)
                            (s\<lparr> tbl_votes := tbl_votes s @ [vote], seq_votes := seq_votes s + 1 \<rparr>)
                     else update_proposals_set (\<lambda>p v. p\<lparr> proposal_votesNo := v \<rparr>)
                            (ColumnPlus ''votesNo'' 1) (iv_proposalId voteData)
                            (s\<lparr> tbl_votes := tbl_votes s @ [vote], seq_votes := seq_votes s + 1 \<rparr>)) of
                 Inl e \<Rightarrow> Inl e
               | Inr s' \<Rightarrow> Inr (vote, s')))"

subsection \<open>Updates of loans, groups and proposals\<close>










subsection \<open>Activities\<close>


definition DatabaseStorage_addActivity ::
  "int \<Rightarrow> InsertActivity \<Rightarrow> Database \<Rightarrow> db_error + Activity \<times> Database" where
  "DatabaseStorage_addActivity now activityData s =
     (let address = toLowerCase (ia_userAddress activityData);
          activity = \<lparr> activity_id = seq_activities s,
                       activity_groupId = ia_groupId activityData,
                       activity_userAddress = address,
                       activity_activityType = ia_activityType activityData,
                       activity_description = ia_description activityData,
                       activity_timestamp = now \<rparr>
      in if 42 < length address then Inl (StringTooLong ''user_address'')
         else if 50 < length (ia_activityType activityData) then Inl (StringTooLong ''activity_type'')
         else if list_ex (\<lambda>a. activity_id a = activity_id activity) (tbl_activities s)
           then Inl (UniqueViolation ''activities_pkey'')
         else Inr (activity, s\<lparr> tbl_activities := tbl_activities s @ [activity],
                                  seq_activities := seq_activities s + 1 \<rparr>))"

section \<open>The HTTP handlers of \<open>server/routes.ts\<close>\<close>

text \<open>
  The handlers call the object \<open>storage\<close> through the interface \<open>IStorage\<close>. The
  interface is a record of the operations the two modelled handlers use, over a store of any
  type; an operation yields its value (and the store after it) or the error its promise
  rejects with (in the model the only rejections are those of the database). \<open>storage.ts\<close> binds \<open>storage\<close> to a \<open>DatabaseStorage\<close>; the class
  \<open>MemStorage\<close> implements the same interface.
\<close>

record 's IStorage =
  getUser :: "'s \<Rightarrow> string \<Rightarrow> db_error + User option"
  createUser :: "int \<Rightarrow> InsertUser \<Rightarrow> 's \<Rightarrow> db_error + User \<times> 's"
  getProposal :: "'s \<Rightarrow> int \<Rightarrow> db_error + Proposal option"
  hasVoted :: "'s \<Rightarrow> int \<Rightarrow> string \<Rightarrow> db_error + bool"
  addVote :: "InsertVote \<Rightarrow> 's \<Rightarrow> db_error + Vote \<times> 's"
  addActivity :: "int \<Rightarrow> InsertActivity \<Rightarrow> 's \<Rightarrow> db_error + Activity \<times> 's"

definition memStorage :: "MemStorage IStorage" where
  "memStorage =
     \<lparr> getUser = (\<lambda>s address. Inr (MemStorage_getUser s address)),
       createUser = (\<lambda>now userData s. Inr (MemStorage_createUser userData s)),
       getProposal = (\<lambda>s ident. Inr (MemStorage_getProposal s ident)),
       hasVoted = (\<lambda>s proposalId address. Inr (MemStorage_hasVoted s proposalId address)),
       addVote = (\<lambda>voteData s. Inr (MemStorage_addVote voteData s)),
       addActivity = (\<lambda>now activityData s. Inr (MemStorage_addActivity now activityData s)) \<rparr>"

definition databaseStorage :: "Database IStorage" where
  "databaseStorage =
     \<lparr> getUser = (\<lambda>s address. Inr (DatabaseStorage_getUser s address)),
       createUser = DatabaseStorage_createUser,
       getProposal = (\<lambda>s ident. Inr (DatabaseStorage_getProposal s ident)),
       hasVoted = (\<lambda>s proposalId address. Inr (DatabaseStorage_hasVoted s proposalId address)),
       addVote = DatabaseStorage_addVote,
       addActivity = DatabaseStorage_addActivity \<rparr>"

text \<open>
  A response is its status code and its JSON body. The text of a validation failure is the
  message of the schema library and is not modelled.
\<close>

datatype json_body = ValidationMessage | Message string | UserBody User | VoteBody Vote

record Response =
  res_status :: int
  res_body :: json_body


text \<open>
  \<open>POST /api/proposals/:id/votes\<close>. The request is \<open>parseInt(req.params.id)\<close>
  (\<open>None\<close> for \<open>NaN\<close>) and the two values the handler reads from the body.
  \<open>insertVoteSchema\<close> wants a number, a string and a boolean; \<open>column_checks\<close> stands for
  the further checks the schema library derives from the columns. Once the validation has
  passed, \<open>parseInt(req.params.id)\<close> is the \<open>proposalId\<close> of the validated data.
\<close>

datatype json = JUndefined | JNull | JBool bool | JNumber int | JString string | JOther

record VoteRequest =
  req_id :: "int option"
  req_voterAddress :: json
  req_vote :: json

definition insertVoteSchema :: "(InsertVote \<Rightarrow> bool) \<Rightarrow> VoteRequest \<Rightarrow> InsertVote option" where
  "insertVoteSchema column_checks req =
     (case (req_id req, req_voterAddress req, req_vote req) of
        (Some n, JString a, JBool b) \<Rightarrow>
          (let voteData = \<lparr> iv_proposalId = n, iv_voterAddress = a, iv_vote = b \<rparr>
           in if column_checks voteData then Some voteData else None)
      | _ \<Rightarrow> None)"

definition vote_description :: "InsertVote \<Rightarrow> Proposal \<Rightarrow> string" where
  "vote_description voteData proposal =
     iv_voterAddress voteData @ '' voted '' @ (if iv_vote voteData then ''Yes'' else ''No'')
       @ '' on proposal: '' @ [CHR 0x22] @ proposal_description proposal @ [CHR 0x22]"

definition post_votes ::
  "'s IStorage \<Rightarrow> (InsertVote \<Rightarrow> bool) \<Rightarrow> int \<Rightarrow> VoteRequest \<Rightarrow> 's \<Rightarrow> Response \<times> 's" where
  "post_votes storage column_checks now req s =
     (case insertVoteSchema column_checks req of
        None \<Rightarrow> (\<lparr> res_status = 400, res_body = ValidationMessage \<rparr>, s)
      | Some voteData \<Rightarrow>
          (case getProposal storage s (iv_proposalId voteData) of
             Inl e \<Rightarrow> (\<lparr> res_status = 500, res_body = Message ''Failed to add vote'' \<rparr>, s)
           | Inr None \<Rightarrow> (\<lparr> res_status = 404, res_body = Message ''Proposal not found'' \<rparr>, s)
           | Inr (Some proposal) \<Rightarrow>
               (case hasVoted storage s (proposal_id proposal) (iv_voterAddress voteData) of
                  Inl e \<Rightarrow> (\<lparr> res_status = 500, res_body = Message ''Failed to add vote'' \<rparr>, s)
                | Inr True \<Rightarrow>
                    (\<lparr> res_status = 400, res_body = Message ''Already voted on this proposal'' \<rparr>, s)
                | Inr False \<Rightarrow>
                    (case addVote storage voteData s of
                       Inl e \<Rightarrow> (\<lparr> res_status = 500, res_body = Message ''Failed to add vote'' \<rparr>, s)
                     | Inr (vote, s1) \<Rightarrow>
                         (case addActivity storage now
                                 \<lparr> ia_groupId = proposal_groupId proposal,
                                   ia_userAddress = iv_voterAddress voteData,
                                   ia_activityType = ''vote_cast'',
                                   ia_description = vote_description voteData proposal \<rparr> s1 of
                            Inl e \<Rightarrow>
                              (\<lparr> res_status = 500, res_body = Message ''Failed to add vote'' \<rparr>, s1)
                          | Inr (activity, s2) \<Rightarrow>
                              (\<lparr> res_status = 201, res_body = VoteBody vote \<rparr>, s2))))))"

section \<open>Example stores\<close>

text \<open>Concrete stores and inputs on which the theorems below are run.\<close>

definition voted_store :: MemStorage where
  "voted_store =
     snd (MemStorage_addVote \<lparr> iv_proposalId = 1, iv_voterAddress = ''0xAB'', iv_vote = True \<rparr>
            (snd (MemStorage_createProposal 100
                    \<lparr> ip_groupId = 1, ip_description = ''Buy a plot'', ip_deadline = 900 \<rparr>
                    MemStorage_new)))"

definition renumbered_store :: MemStorage where
  "renumbered_store =
     MemStorage_apply
       (UpdateProposal 1
          \<lparr> pp_id = Some 2, pp_groupId = None, pp_description = None, pp_votesYes = None,
            pp_votesNo = None, pp_deadline = None, pp_executed = None, pp_createdAt = None \<rparr>)
       voted_store"

definition voted_database :: Database where
  "voted_database =
     Database_new
       \<lparr> tbl_proposals := [\<lparr> proposal_id = 1, proposal_groupId = 1,
                             proposal_description = ''Buy a plot'',
                             proposal_votesYes = Some 1, proposal_votesNo = Some 0,
                             proposal_deadline = 900, proposal_executed = Some False,
                             proposal_createdAt = Some 100 \<rparr>],
         tbl_votes := [\<lparr> vote_id = 1, vote_proposalId = 1, vote_voterAddress = ''0xab'',
                         vote_vote = True \<rparr>],
         seq_proposals := 2, seq_votes := 2 \<rparr>"

definition example_user :: InsertUser where
  "example_user =
     \<lparr> iu_address = ''0xAbC'', iu_groupId = None, iu_totalDeposits = None, iu_creditScore = None,
       iu_lastDepositTime = None, iu_registered = None, iu_isDefaulted = None \<rparr>"




definition example_member :: InsertGroupMember where
  "example_member = \<lparr> im_groupId = 1, im_memberAddress = ''0xCd'' \<rparr>"

definition example_loan :: InsertLoan where
  "example_loan =
     \<lparr> il_borrowerAddress = ''0xAbC'', il_amount = 50, il_dueDate = 900, il_repaid = None,
       il_approved = None, il_defaulted = None \<rparr>"

definition example_guarantor :: InsertGuarantor where
  "example_guarantor = \<lparr> iq_loanId = 1, iq_guarantorAddress = ''0xCd'', iq_approved = Some False \<rparr>"

definition example_activity :: InsertActivity where
  "example_activity =
     \<lparr> ia_groupId = 1, ia_userAddress = ''0xAbC'', ia_activityType = ''join_group'',
       ia_description = ''joined'' \<rparr>"




section \<open>Orderings\<close>


section \<open>Facts about the model\<close>

lemma orEmpty_simps [simp]: "orEmpty None = []" "orEmpty (Some xs) = xs"
  by (simp_all add: orEmpty_def)

subsection \<open>Case variants have one lower-case form\<close>

lemma lower_not_upper: "list_all (\<lambda>d. map_of upper_lower d = None) (map snd upper_lower)"
  unfolding upper_lower_def by simp

lemma upper_lower_image:
  assumes "map_of upper_lower c = Some d"
  shows "map_of upper_lower d = None"
proof -
  from assms have "(c, d) \<in> set upper_lower" by (rule map_of_SomeD)
  then have "d \<in> set (map snd upper_lower)" by force
  with lower_not_upper show ?thesis unfolding list_all_iff by blast
qed

lemma toLowerChar_upper:
  assumes "map_of upper_lower c = Some d"
  shows "toLowerChar c = d" and "toLowerChar d = d"
  using assms upper_lower_image [OF assms] by (simp_all add: toLowerChar_def)

lemma same_letter_lower: "same_letter c d \<Longrightarrow> toLowerChar c = toLowerChar d"
  unfolding same_letter_def by (auto simp: toLowerChar_upper)

lemma case_variant_lower: "case_variant a b \<Longrightarrow> toLowerCase a = toLowerCase b"
  unfolding case_variant_def toLowerCase_def
  by (induction a b rule: list_all2_induct) (auto dest: same_letter_lower)

subsection \<open>Votes\<close>

lemma MemStorage_addVote_tally:
  assumes "MemStorage_getProposal s (iv_proposalId v) = Some p"
  shows "MemStorage_getProposal (snd (MemStorage_addVote v s)) (iv_proposalId v) =
           Some (if iv_vote v then p\<lparr> proposal_votesYes := Some (js_plus1 (proposal_votesYes p)) \<rparr>
                 else p\<lparr> proposal_votesNo := Some (js_plus1 (proposal_votesNo p)) \<rparr>)"
  using assms
  by (simp add: MemStorage_addVote_def MemStorage_getProposal_def MemStorage_updateProposal_def
        tally_update_def spread_Proposal_def spread_def Let_def)

lemma DatabaseStorage_addVote_refused: "\<exists>e. DatabaseStorage_addVote v s = Inl e"
  by (simp add: DatabaseStorage_addVote_def update_proposals_set_def proposals_columns_def Let_def)

lemma MemStorage_hasVoted_case_variant:
  assumes "list_ex (\<lambda>v. case_variant (vote_voterAddress v) a) (MemStorage_getVotes s i)"
  shows "MemStorage_hasVoted s i a"
  using assms
  by (auto simp: MemStorage_hasVoted_def MemStorage_getVotes_def list_ex_iff
        dest: case_variant_lower)

lemma DatabaseStorage_hasVoted_case_variant:
  assumes "list_ex (\<lambda>v. vote_voterAddress v = toLowerCase b) (DatabaseStorage_getVotes d i)"
    and "case_variant b a"
  shows "DatabaseStorage_hasVoted d i a"
  using assms case_variant_lower [of b a]
  by (auto simp: DatabaseStorage_hasVoted_def DatabaseStorage_getVotes_def list_ex_iff)

lemma DatabaseStorage_getProposal_id:
  "DatabaseStorage_getProposal d i = Some q \<Longrightarrow> proposal_id q = i"
  by (auto simp: DatabaseStorage_getProposal_def find_Some_iff)

lemma post_votes_memStorage_voted:
  assumes "req_id req = Some i" and "req_voterAddress req = JString a"
    and "MemStorage_getProposal s i = Some p"
    and "list_ex (\<lambda>v. case_variant (vote_voterAddress v) a) (MemStorage_getVotes s (proposal_id p))"
  shows "res_status (fst (post_votes memStorage column_checks now req s)) = 400
        \<and> snd (post_votes memStorage column_checks now req s) = s"
proof -
  have voted: "MemStorage_hasVoted s (proposal_id p) a"
    using assms(4) by (rule MemStorage_hasVoted_case_variant)
  show ?thesis
    using assms(1-3) voted
    by (auto simp: post_votes_def insertVoteSchema_def memStorage_def Let_def
          split: option.splits json.splits)
qed

lemma post_votes_databaseStorage_voted:
  assumes "req_id req = Some i" and "req_voterAddress req = JString a"
    and "DatabaseStorage_getProposal d i = Some q"
    and "list_ex (\<lambda>v. vote_voterAddress v = toLowerCase b)
           (DatabaseStorage_getVotes d (proposal_id q))"
    and "case_variant b a"
  shows "res_status (fst (post_votes databaseStorage column_checks now req d)) = 400
        \<and> snd (post_votes databaseStorage column_checks now req d) = d"
proof -
  have voted: "DatabaseStorage_hasVoted d (proposal_id q) a"
    using assms(4,5) by (rule DatabaseStorage_hasVoted_case_variant)
  show ?thesis
    using assms(1-3) voted
    by (auto simp: post_votes_def insertVoteSchema_def databaseStorage_def Let_def
          split: option.splits json.splits)
qed

subsection \<open>Users\<close>





lemma find_append_last: "find P xs = None \<Longrightarrow> P y \<Longrightarrow> find P (xs @ [y]) = Some y"
  by (induction xs) (auto split: if_splits)

lemma DatabaseStorage_getUser_after_createUser:
  assumes "DatabaseStorage_getUser d (iu_address u) = None"
    and "DatabaseStorage_createUser now u d = Inr (x, d')"
  shows "DatabaseStorage_getUser d' (iu_address u) = Some x"
  using assms
  by (auto simp: DatabaseStorage_getUser_def DatabaseStorage_createUser_def Let_def
        find_append_last split: if_splits)

lemma DatabaseStorage_createUser_found:
  assumes "DatabaseStorage_createUser now u d = Inr (r, d')"
    and "toLowerCase a' = toLowerCase (iu_address u)"
  shows "DatabaseStorage_getUser d' a' = Some r"
proof -
  have "DatabaseStorage_getUser d (iu_address u) = None"
    using assms(1)
    by (auto simp: DatabaseStorage_createUser_def DatabaseStorage_getUser_def Let_def
          find_None_iff list_ex_iff split: if_splits)
  then have "DatabaseStorage_getUser d' (iu_address u) = Some r"
    using assms(1) by (rule DatabaseStorage_getUser_after_createUser)
  then show ?thesis
    using assms(2) by (simp add: DatabaseStorage_getUser_def)
qed



subsection \<open>Activities\<close>






subsection \<open>Stored addresses\<close>

lemma MemStorage_stored_addresses:
  "user_address (fst (MemStorage_createUser u s)) = toLowerCase (iu_address u)"
  "users (snd (MemStorage_createUser u s)) (toLowerCase (iu_address u))
     = Some (fst (MemStorage_createUser u s))"
  "member_memberAddress (fst (MemStorage_addGroupMember m s)) = im_memberAddress m"
  "groupMembers (snd (MemStorage_addGroupMember m s)) (im_groupId m)
     = Some (orEmpty (groupMembers s (im_groupId m)) @ [fst (MemStorage_addGroupMember m s)])"
  "loan_borrowerAddress (fst (MemStorage_createLoan now l s)) = il_borrowerAddress l"
  "loans (snd (MemStorage_createLoan now l s)) (loan_id (fst (MemStorage_createLoan now l s)))
     = Some (fst (MemStorage_createLoan now l s))"
  "guarantor_guarantorAddress (fst (MemStorage_addGuarantor q s)) = iq_guarantorAddress q"
  "guarantors (snd (MemStorage_addGuarantor q s)) (iq_loanId q)
     = Some (orEmpty (guarantors s (iq_loanId q)) @ [fst (MemStorage_addGuarantor q s)])"
  "vote_voterAddress (fst (MemStorage_addVote v s)) = iv_voterAddress v"
  "votes (snd (MemStorage_addVote v s)) (iv_proposalId v)
     = Some (orEmpty (votes s (iv_proposalId v)) @ [fst (MemStorage_addVote v s)])"
  "activity_userAddress (fst (MemStorage_addActivity now a s)) = ia_userAddress a"
  "activities (snd (MemStorage_addActivity now a s)) (ia_groupId a)
     = Some (orEmpty (activities s (ia_groupId a)) @ [fst (MemStorage_addActivity now a s)])"
  by (simp_all add: MemStorage_createUser_def MemStorage_addGroupMember_def MemStorage_createLoan_def
        MemStorage_addGuarantor_def MemStorage_addVote_def MemStorage_addActivity_def
        MemStorage_getProposal_def MemStorage_updateProposal_def Let_def split: option.splits)

lemma DatabaseStorage_stored_addresses:
  "DatabaseStorage_createUser now u d = Inr (ru, du) \<Longrightarrow>
     user_address ru = toLowerCase (iu_address u) \<and> tbl_users du = tbl_users d @ [ru]"
  "DatabaseStorage_addGroupMember m d = Inr (rm, dm) \<Longrightarrow>
     member_memberAddress rm = toLowerCase (im_memberAddress m)
     \<and> tbl_groupMembers dm = tbl_groupMembers d @ [rm]"
  "DatabaseStorage_createLoan now l d = Inr (rl, dl) \<Longrightarrow>
     loan_borrowerAddress rl = toLowerCase (il_borrowerAddress l) \<and> tbl_loans dl = tbl_loans d @ [rl]"
  "DatabaseStorage_addGuarantor q d = Inr (rq, dq) \<Longrightarrow>
     guarantor_guarantorAddress rq = toLowerCase (iq_guarantorAddress q)
     \<and> tbl_guarantors dq = tbl_guarantors d @ [rq]"
  "DatabaseStorage_addActivity now a d = Inr (ra, da) \<Longrightarrow>
     activity_userAddress ra = toLowerCase (ia_userAddress a)
     \<and> tbl_activities da = tbl_activities d @ [ra]"
  by (auto simp: DatabaseStorage_createUser_def DatabaseStorage_addGroupMember_def
        insert_groupMember_def DatabaseStorage_createLoan_def DatabaseStorage_addGuarantor_def
        DatabaseStorage_addActivity_def Let_def split: if_splits)

subsection \<open>What a write keeps\<close>














subsection \<open>Updates of a record that is not there\<close>





section \<open>The claims\<close>

text \<open>
  C1. Casting a vote increments exactly one tally. \<open>MemStorage.addVote\<close> does so (lemma
  \<open>MemStorage_addVote_tally\<close>). \<open>DatabaseStorage.addVote\<close> does not: its update names
  the columns \<open>"votesYes"\<close> and \<open>"votesNo"\<close>, which the table \<open>proposals\<close> does not
  have (the schema names them \<open>votes_yes\<close> and \<open>votes_no\<close>), so the database refuses the
  statement and the transaction writes nothing (lemma \<open>DatabaseStorage_addVote_refused\<close>:
  for every vote and every database). The theorem runs the call on a yes vote for a stored
  proposal.
\<close>

theorem DatabaseStorage_addVote_undefined_column:
  "DatabaseStorage_addVote \<lparr> iv_proposalId = 1, iv_voterAddress = ''0xAb'', iv_vote = True \<rparr>
     (Database_new
        \<lparr> tbl_proposals := [\<lparr> proposal_id = 1, proposal_groupId = 1, proposal_description = ''Buy a plot'',
                              proposal_votesYes = Some 0, proposal_votesNo = Some 0,
                              proposal_deadline = 900, proposal_executed = Some False,
                              proposal_createdAt = Some 100 \<rparr>],
          seq_proposals := 2 \<rparr>)
   = Inl (UndefinedColumn ''votesYes'')"
  by (simp add: DatabaseStorage_addVote_def update_proposals_set_def proposals_columns_def
        Database_new_def toLowerCase_def Let_def)

text \<open>
  C2, as the claim states it, fails on \<open>MemStorage\<close>. The handler looks for an earlier
  vote under \<open>proposal.id\<close>, the field of the stored proposal, while votes are filed under
  the identifier of the request; \<open>updateProposal\<close> takes any \<open>Partial<Proposal>\<close> and
  can overwrite the field. In the store below proposal 1 has the vote of \<open>0xAB\<close> and its
  field \<open>id\<close> has been set to 2: the same address votes again on proposal 1, gets 201, a
  second vote is stored and the tally goes to 2.
\<close>

theorem post_votes_after_renumbering:
  "MemStorage_getProposal renumbered_store 1
     = Some \<lparr> proposal_id = 2, proposal_groupId = 1, proposal_description = ''Buy a plot'',
              proposal_votesYes = Some 1, proposal_votesNo = Some 0, proposal_deadline = 900,
              proposal_executed = Some False, proposal_createdAt = Some 100 \<rparr>
   \<and> MemStorage_getVotes renumbered_store 1
       = [\<lparr> vote_id = 1, vote_proposalId = 1, vote_voterAddress = ''0xAB'', vote_vote = True \<rparr>]
   \<and> res_status (fst (post_votes memStorage (\<lambda>v. True) 200
                          \<lparr> req_id = Some 1, req_voterAddress = JString ''0xAB'',
                            req_vote = JBool True \<rparr> renumbered_store)) = 201
   \<and> MemStorage_getVotes
        (snd (post_votes memStorage (\<lambda>v. True) 200
                \<lparr> req_id = Some 1, req_voterAddress = JString ''0xAB'', req_vote = JBool True \<rparr>
                renumbered_store)) 1
       = [\<lparr> vote_id = 1, vote_proposalId = 1, vote_voterAddress = ''0xAB'', vote_vote = True \<rparr>,
          \<lparr> vote_id = 2, vote_proposalId = 1, vote_voterAddress = ''0xAB'', vote_vote = True \<rparr>]
   \<and> map_option proposal_votesYes
        (MemStorage_getProposal
           (snd (post_votes memStorage (\<lambda>v. True) 200
                   \<lparr> req_id = Some 1, req_voterAddress = JString ''0xAB'', req_vote = JBool True \<rparr>
                   renumbered_store)) 1)
       = Some (Some 2)"
  by (simp add: renumbered_store_def voted_store_def post_votes_def insertVoteSchema_def
        memStorage_def MemStorage_hasVoted_def MemStorage_getVotes_def MemStorage_getProposal_def
        MemStorage_addVote_def MemStorage_addActivity_def MemStorage_createProposal_def
        MemStorage_updateProposal_def MemStorage_new_def tally_update_def spread_Proposal_def
        spread_def js_plus1_def Let_def)

text \<open>
  C2, amended. A second vote is refused while the stored proposal carries the identifier it
  is stored under (as \<open>createProposal\<close> stores it). For every
  \<open>POST /api/proposals/:id/votes\<close> that names such a proposal and carries a voter address,
  if the votes filed under that identifier hold one by a case variant of the address, the
  handler answers 400 and the store is the one before the request. On \<open>MemStorage\<close> the
  stored vote may carry any case variant; \<open>DatabaseStorage\<close> finds a proposal by its
  \<open>id\<close> column, and a vote is stored there with its address in lower case.
\<close>

theorem post_votes_already_voted:
  "(req_id req = Some i \<and> req_voterAddress req = JString a
     \<and> MemStorage_getProposal s i = Some p \<and> proposal_id p = i
     \<and> list_ex (\<lambda>v. case_variant (vote_voterAddress v) a) (MemStorage_getVotes s i)
    \<longrightarrow> res_status (fst (post_votes memStorage column_checks now req s)) = 400
        \<and> snd (post_votes memStorage column_checks now req s) = s)
   \<and> (req_id req = Some i \<and> req_voterAddress req = JString a
        \<and> DatabaseStorage_getProposal d i = Some q
        \<and> list_ex (\<lambda>v. vote_voterAddress v = toLowerCase b) (DatabaseStorage_getVotes d i)
        \<and> case_variant b a
       \<longrightarrow> res_status (fst (post_votes databaseStorage column_checks now req d)) = 400
           \<and> snd (post_votes databaseStorage column_checks now req d) = d)"
  using post_votes_memStorage_voted [of req i a s p column_checks now]
    post_votes_databaseStorage_voted [of req i a d q b column_checks now]
    DatabaseStorage_getProposal_id [of d i q]
  by auto

theorem post_votes_already_voted_witness:
  "MemStorage_getProposal voted_store 1
     = Some \<lparr> proposal_id = 1, proposal_groupId = 1, proposal_description = ''Buy a plot'',
              proposal_votesYes = Some 1, proposal_votesNo = Some 0, proposal_deadline = 900,
              proposal_executed = Some False, proposal_createdAt = Some 100 \<rparr>
   \<and> MemStorage_getVotes voted_store 1
       = [\<lparr> vote_id = 1, vote_proposalId = 1, vote_voterAddress = ''0xAB'', vote_vote = True \<rparr>]
   \<and> case_variant ''0xAB'' ''0xaB''
   \<and> post_votes memStorage (\<lambda>v. True) 200
        \<lparr> req_id = Some 1, req_voterAddress = JString ''0xaB'', req_vote = JBool False \<rparr> voted_store
       = (\<lparr> res_status = 400, res_body = Message ''Already voted on this proposal'' \<rparr>, voted_store)
   \<and> DatabaseStorage_getProposal voted_database 1
       = Some \<lparr> proposal_id = 1, proposal_groupId = 1, proposal_description = ''Buy a plot'',
                proposal_votesYes = Some 1, proposal_votesNo = Some 0, proposal_deadline = 900,
                proposal_executed = Some False, proposal_createdAt = Some 100 \<rparr>
   \<and> DatabaseStorage_getVotes voted_database 1
       = [\<lparr> vote_id = 1, vote_proposalId = 1, vote_voterAddress = toLowerCase ''0xAB'',
            vote_vote = True \<rparr>]
   \<and> post_votes databaseStorage (\<lambda>v. True) 200
        \<lparr> req_id = Some 1, req_voterAddress = JString ''0xaB'', req_vote = JBool False \<rparr>
        voted_database
       = (\<lparr> res_status = 400, res_body = Message ''Already voted on this proposal'' \<rparr>,
          voted_database)"
proof -
  let ?p = "\<lparr> proposal_id = 1, proposal_groupId = 1, proposal_description = ''Buy a plot'',
              proposal_votesYes = Some 1, proposal_votesNo = Some 0, proposal_deadline = 900,
              proposal_executed = Some False, proposal_createdAt = Some 100 \<rparr>"
  let ?req = "\<lparr> req_id = Some 1, req_voterAddress = JString ''0xaB'', req_vote = JBool False \<rparr>"
  have lower: "toLowerCase ''0xAB'' = ''0xab''" "toLowerCase ''0xaB'' = ''0xab''"
    by (simp_all add: toLowerCase_def toLowerChar_def upper_lower_def)
  have cv: "case_variant ''0xAB'' ''0xaB''"
    by (simp add: case_variant_def same_letter_def upper_lower_def)
  have mp: "MemStorage_getProposal voted_store 1 = Some ?p"
    by (simp add: voted_store_def MemStorage_addVote_def MemStorage_createProposal_def
          MemStorage_updateProposal_def MemStorage_getProposal_def MemStorage_new_def
          tally_update_def spread_Proposal_def spread_def js_plus1_def Let_def)
  have mv: "MemStorage_getVotes voted_store 1
       = [\<lparr> vote_id = 1, vote_proposalId = 1, vote_voterAddress = ''0xAB'', vote_vote = True \<rparr>]"
    by (simp add: voted_store_def MemStorage_addVote_def MemStorage_createProposal_def
          MemStorage_updateProposal_def MemStorage_getProposal_def MemStorage_getVotes_def
          MemStorage_new_def Let_def)
  have dp: "DatabaseStorage_getProposal voted_database 1 = Some ?p"
    by (simp add: voted_database_def DatabaseStorage_getProposal_def Database_new_def)
  have dv: "DatabaseStorage_getVotes voted_database 1
       = [\<lparr> vote_id = 1, vote_proposalId = 1, vote_voterAddress = toLowerCase ''0xAB'',
            vote_vote = True \<rparr>]"
    by (simp add: voted_database_def DatabaseStorage_getVotes_def Database_new_def lower)
  note inst = post_votes_already_voted
      [where req = ?req and i = 1 and a = "''0xaB''" and s = voted_store and p = ?p
         and d = voted_database and q = ?p and b = "''0xAB''"
         and column_checks = "\<lambda>v. True" and now = 200]
  have m400: "res_status (fst (post_votes memStorage (\<lambda>v. True) 200 ?req voted_store)) = 400
      \<and> snd (post_votes memStorage (\<lambda>v. True) 200 ?req voted_store) = voted_store"
   and d400: "res_status (fst (post_votes databaseStorage (\<lambda>v. True) 200 ?req voted_database)) = 400
      \<and> snd (post_votes databaseStorage (\<lambda>v. True) 200 ?req voted_database) = voted_database"
    using inst mp mv dp dv cv by simp_all
  have mb: "res_body (fst (post_votes memStorage (\<lambda>v. True) 200 ?req voted_store))
      = Message ''Already voted on this proposal''"
    using mp mv
    by (simp add: post_votes_def insertVoteSchema_def memStorage_def MemStorage_hasVoted_def
          MemStorage_getVotes_def lower)
  have db: "res_body (fst (post_votes databaseStorage (\<lambda>v. True) 200 ?req voted_database))
      = Message ''Already voted on this proposal''"
    using dp dv
    by (simp add: post_votes_def insertVoteSchema_def databaseStorage_def DatabaseStorage_hasVoted_def
          voted_database_def Database_new_def lower)
  have m: "post_votes memStorage (\<lambda>v. True) 200 ?req voted_store
       = (\<lparr> res_status = 400, res_body = Message ''Already voted on this proposal'' \<rparr>, voted_store)"
    using m400 mb by (cases "post_votes memStorage (\<lambda>v. True) 200 ?req voted_store") auto
  have d: "post_votes databaseStorage (\<lambda>v. True) 200 ?req voted_database
       = (\<lparr> res_status = 400, res_body = Message ''Already voted on this proposal'' \<rparr>, voted_database)"
    using d400 db by (cases "post_votes databaseStorage (\<lambda>v. True) 200 ?req voted_database") auto
  show ?thesis using mp mv cv m dp dv d by simp
qed

text \<open>
  C3. The admin is the first member of a new group. In \<open>MemStorage\<close>, after
  \<open>createGroup(g)\<close> has returned the group, \<open>isGroupMember\<close> of its identifier and
  \<open>g.admin\<close> is true. In \<open>DatabaseStorage\<close> the same holds whenever the transaction of
  \<open>createGroup\<close> commits and returns the group.
\<close>

theorem createGroup_admin_isGroupMember:
  "(case MemStorage_createGroup g s of
      (grp, s') \<Rightarrow> MemStorage_isGroupMember s' (group_id grp) (ig_admin g))
   \<and> (DatabaseStorage_createGroup g d = Inr (grp', d') \<longrightarrow>
        DatabaseStorage_isGroupMember d' (group_id grp') (ig_admin g))"
proof
  show "case MemStorage_createGroup g s of
          (grp, s') \<Rightarrow> MemStorage_isGroupMember s' (group_id grp) (ig_admin g)"
    by (simp add: MemStorage_createGroup_def MemStorage_addGroupMember_def
          MemStorage_isGroupMember_def Let_def)
next
  show "DatabaseStorage_createGroup g d = Inr (grp', d') \<longrightarrow>
          DatabaseStorage_isGroupMember d' (group_id grp') (ig_admin g)"
    by (auto simp add: DatabaseStorage_createGroup_def insert_groupMember_def
          DatabaseStorage_isGroupMember_def Let_def split: if_splits)
qed

theorem createGroup_admin_isGroupMember_witness:
  "MemStorage_isGroupMember
     (snd (MemStorage_createGroup \<lparr> ig_name = ''Savers'', ig_admin = ''0xABcd'' \<rparr> MemStorage_new))
     1 ''0xABcd''
   \<and> group_id (fst (MemStorage_createGroup \<lparr> ig_name = ''Savers'', ig_admin = ''0xABcd'' \<rparr>
                      MemStorage_new)) = 1
   \<and> DatabaseStorage_createGroup \<lparr> ig_name = ''Savers'', ig_admin = ''0xABcd'' \<rparr> Database_new
       = Inr (\<lparr> group_id = 1, group_name = ''Savers'', group_admin = ''0xABcd'',
                group_totalDeposits = Some 0, group_totalLoaned = Some 0 \<rparr>,
              Database_new
                \<lparr> tbl_groups := [\<lparr> group_id = 1, group_name = ''Savers'', group_admin = ''0xABcd'',
                                   group_totalDeposits = Some 0, group_totalLoaned = Some 0 \<rparr>],
                  tbl_groupMembers := [\<lparr> member_id = 1, member_groupId = 1,
                                         member_memberAddress = ''0xabcd'' \<rparr>],
                  seq_groups := 2, seq_groupMembers := 2 \<rparr>)
   \<and> DatabaseStorage_isGroupMember
        (Database_new
           \<lparr> tbl_groups := [\<lparr> group_id = 1, group_name = ''Savers'', group_admin = ''0xABcd'',
                              group_totalDeposits = Some 0, group_totalLoaned = Some 0 \<rparr>],
             tbl_groupMembers := [\<lparr> member_id = 1, member_groupId = 1,
                                    member_memberAddress = ''0xabcd'' \<rparr>],
             seq_groups := 2, seq_groupMembers := 2 \<rparr>) 1 ''0xABcd''"
proof -
  have run: "DatabaseStorage_createGroup \<lparr> ig_name = ''Savers'', ig_admin = ''0xABcd'' \<rparr> Database_new
       = Inr (\<lparr> group_id = 1, group_name = ''Savers'', group_admin = ''0xABcd'',
                group_totalDeposits = Some 0, group_totalLoaned = Some 0 \<rparr>,
              Database_new
                \<lparr> tbl_groups := [\<lparr> group_id = 1, group_name = ''Savers'', group_admin = ''0xABcd'',
                                   group_totalDeposits = Some 0, group_totalLoaned = Some 0 \<rparr>],
                  tbl_groupMembers := [\<lparr> member_id = 1, member_groupId = 1,
                                         member_memberAddress = ''0xabcd'' \<rparr>],
                  seq_groups := 2, seq_groupMembers := 2 \<rparr>)"
    by (simp add: DatabaseStorage_createGroup_def insert_groupMember_def Database_new_def
          toLowerCase_def toLowerChar_def upper_lower_def Let_def)
  note inst = createGroup_admin_isGroupMember
      [where g = "\<lparr> ig_name = ''Savers'', ig_admin = ''0xABcd'' \<rparr>" and s = MemStorage_new
         and d = Database_new
         and grp' = "\<lparr> group_id = 1, group_name = ''Savers'', group_admin = ''0xABcd'',
                       group_totalDeposits = Some 0, group_totalLoaned = Some 0 \<rparr>"
         and d' = "Database_new
                \<lparr> tbl_groups := [\<lparr> group_id = 1, group_name = ''Savers'', group_admin = ''0xABcd'',
                                   group_totalDeposits = Some 0, group_totalLoaned = Some 0 \<rparr>],
                  tbl_groupMembers := [\<lparr> member_id = 1, member_groupId = 1,
                                         member_memberAddress = ''0xabcd'' \<rparr>],
                  seq_groups := 2, seq_groupMembers := 2 \<rparr>"]
  have one: "group_id (fst (MemStorage_createGroup \<lparr> ig_name = ''Savers'', ig_admin = ''0xABcd'' \<rparr>
                      MemStorage_new)) = 1"
    by (simp add: MemStorage_createGroup_def MemStorage_new_def Let_def)
  show ?thesis
    using run inst one by (simp split: prod.splits)
qed

text \<open>
  C4, as the claim states it, fails: \<open>MemStorage.addVote\<close> stores the voter address as it
  was given. The counterexample casts a vote with the address \<open>0xAB\<close> on the empty store;
  the stored vote carries \<open>0xAB\<close>, not its lower-case form.
\<close>

theorem MemStorage_addVote_keeps_case:
  "vote_voterAddress (fst (MemStorage_addVote
       \<lparr> iv_proposalId = 1, iv_voterAddress = ''0xAB'', iv_vote = True \<rparr> MemStorage_new))
     \<noteq> toLowerCase ''0xAB''
   \<and> MemStorage_getVotes (snd (MemStorage_addVote
       \<lparr> iv_proposalId = 1, iv_voterAddress = ''0xAB'', iv_vote = True \<rparr> MemStorage_new)) 1
     = [\<lparr> vote_id = 1, vote_proposalId = 1, vote_voterAddress = ''0xAB'', vote_vote = True \<rparr>]"
  by (simp add: MemStorage_addVote_def MemStorage_getVotes_def MemStorage_getProposal_def
        MemStorage_new_def toLowerCase_def toLowerChar_def upper_lower_def Let_def)

text \<open>
  C4, amended. \<open>MemStorage.createUser\<close> stores the user with the lower-case form of the
  address (and under it). \<open>MemStorage.addGroupMember\<close>, \<open>createLoan\<close>,
  \<open>addGuarantor\<close>, \<open>addVote\<close> and \<open>addActivity\<close> store the record with the address
  exactly as given (the lookups of the class lower-case both sides when they compare).
  \<open>DatabaseStorage.createUser\<close>, \<open>addGroupMember\<close>, \<open>createLoan\<close>,
  \<open>addGuarantor\<close> and \<open>addActivity\<close>, whenever the insert succeeds, append a row whose
  address is the lower-case form of the input. (\<open>DatabaseStorage.addVote\<close> is the subject
  of C1.)
\<close>

theorem address_as_stored:
  "user_address (fst (MemStorage_createUser u s)) = toLowerCase (iu_address u)
   \<and> users (snd (MemStorage_createUser u s)) (toLowerCase (iu_address u))
       = Some (fst (MemStorage_createUser u s))
   \<and> member_memberAddress (fst (MemStorage_addGroupMember m s)) = im_memberAddress m
   \<and> groupMembers (snd (MemStorage_addGroupMember m s)) (im_groupId m)
       = Some (orEmpty (groupMembers s (im_groupId m)) @ [fst (MemStorage_addGroupMember m s)])
   \<and> loan_borrowerAddress (fst (MemStorage_createLoan now l s)) = il_borrowerAddress l
   \<and> loans (snd (MemStorage_createLoan now l s)) (loan_id (fst (MemStorage_createLoan now l s)))
       = Some (fst (MemStorage_createLoan now l s))
   \<and> guarantor_guarantorAddress (fst (MemStorage_addGuarantor q s)) = iq_guarantorAddress q
   \<and> guarantors (snd (MemStorage_addGuarantor q s)) (iq_loanId q)
       = Some (orEmpty (guarantors s (iq_loanId q)) @ [fst (MemStorage_addGuarantor q s)])
   \<and> vote_voterAddress (fst (MemStorage_addVote v s)) = iv_voterAddress v
   \<and> votes (snd (MemStorage_addVote v s)) (iv_proposalId v)
       = Some (orEmpty (votes s (iv_proposalId v)) @ [fst (MemStorage_addVote v s)])
   \<and> activity_userAddress (fst (MemStorage_addActivity now a s)) = ia_userAddress a
   \<and> activities (snd (MemStorage_addActivity now a s)) (ia_groupId a)
       = Some (orEmpty (activities s (ia_groupId a)) @ [fst (MemStorage_addActivity now a s)])
   \<and> (DatabaseStorage_createUser now u d = Inr (ru, du) \<longrightarrow>
        user_address ru = toLowerCase (iu_address u) \<and> tbl_users du = tbl_users d @ [ru])
   \<and> (DatabaseStorage_addGroupMember m d = Inr (rm, dm) \<longrightarrow>
        member_memberAddress rm = toLowerCase (im_memberAddress m)
        \<and> tbl_groupMembers dm = tbl_groupMembers d @ [rm])
   \<and> (DatabaseStorage_createLoan now l d = Inr (rl, dl) \<longrightarrow>
        loan_borrowerAddress rl = toLowerCase (il_borrowerAddress l)
        \<and> tbl_loans dl = tbl_loans d @ [rl])
   \<and> (DatabaseStorage_addGuarantor q d = Inr (rq, dq) \<longrightarrow>
        guarantor_guarantorAddress rq = toLowerCase (iq_guarantorAddress q)
        \<and> tbl_guarantors dq = tbl_guarantors d @ [rq])
   \<and> (DatabaseStorage_addActivity now a d = Inr (ra, da) \<longrightarrow>
        activity_userAddress ra = toLowerCase (ia_userAddress a)
        \<and> tbl_activities da = tbl_activities d @ [ra])"
  by (intro conjI;
      (rule MemStorage_stored_addresses | (rule impI, erule DatabaseStorage_stored_addresses)))

theorem address_as_stored_witness:
  "DatabaseStorage_createUser 10 example_user Database_new
     = Inr (\<lparr> user_id = 1, user_address = ''0xabc'', user_groupId = None,
              user_totalDeposits = Some 0, user_creditScore = Some 100,
              user_lastDepositTime = Some 10, user_registered = Some False,
              user_isDefaulted = Some False \<rparr>,
            Database_new
              \<lparr> tbl_users := [\<lparr> user_id = 1, user_address = ''0xabc'', user_groupId = None,
                               user_totalDeposits = Some 0, user_creditScore = Some 100,
                               user_lastDepositTime = Some 10, user_registered = Some False,
                               user_isDefaulted = Some False \<rparr>],
                seq_users := 2 \<rparr>)
   \<and> toLowerCase (iu_address example_user) = ''0xabc''
   \<and> DatabaseStorage_addGroupMember example_member Database_new
     = Inr (\<lparr> member_id = 1, member_groupId = 1, member_memberAddress = ''0xcd'' \<rparr>,
            Database_new
              \<lparr> tbl_groupMembers := [\<lparr> member_id = 1, member_groupId = 1,
                                      member_memberAddress = ''0xcd'' \<rparr>],
                seq_groupMembers := 2 \<rparr>)
   \<and> toLowerCase (im_memberAddress example_member) = ''0xcd''
   \<and> DatabaseStorage_createLoan 10 example_loan Database_new
     = Inr (\<lparr> loan_id = 1, loan_borrowerAddress = ''0xabc'', loan_amount = 50, loan_dueDate = 900,
              loan_repaid = Some False, loan_approved = Some False, loan_defaulted = Some False,
              loan_createdAt = Some 10 \<rparr>,
            Database_new
              \<lparr> tbl_loans := [\<lparr> loan_id = 1, loan_borrowerAddress = ''0xabc'', loan_amount = 50,
                               loan_dueDate = 900, loan_repaid = Some False,
                               loan_approved = Some False, loan_defaulted = Some False,
                               loan_createdAt = Some 10 \<rparr>],
                seq_loans := 2 \<rparr>)
   \<and> toLowerCase (il_borrowerAddress example_loan) = ''0xabc''
   \<and> DatabaseStorage_addGuarantor example_guarantor Database_new
     = Inr (\<lparr> guarantor_id = 1, guarantor_loanId = 1, guarantor_guarantorAddress = ''0xcd'',
              guarantor_approved = Some False \<rparr>,
            Database_new
              \<lparr> tbl_guarantors := [\<lparr> guarantor_id = 1, guarantor_loanId = 1,
                                    guarantor_guarantorAddress = ''0xcd'',
                                    guarantor_approved = Some False \<rparr>],
                seq_guarantors := 2 \<rparr>)
   \<and> toLowerCase (iq_guarantorAddress example_guarantor) = ''0xcd''
   \<and> DatabaseStorage_addActivity 10 example_activity Database_new
     = Inr (\<lparr> activity_id = 1, activity_groupId = 1, activity_userAddress = ''0xabc'',
              activity_activityType = ''join_group'', activity_description = ''joined'',
              activity_timestamp = 10 \<rparr>,
            Database_new
              \<lparr> tbl_activities := [\<lparr> activity_id = 1, activity_groupId = 1,
                                    activity_userAddress = ''0xabc'',
                                    activity_activityType = ''join_group'',
                                    activity_description = ''joined'', activity_timestamp = 10 \<rparr>],
                seq_activities := 2 \<rparr>)
   \<and> toLowerCase (ia_userAddress example_activity) = ''0xabc''
   \<and> user_address (fst (MemStorage_createUser example_user MemStorage_new)) = ''0xabc''
   \<and> member_memberAddress (fst (MemStorage_addGroupMember example_member MemStorage_new)) = ''0xCd''"
proof -
  let ?u = "\<lparr> user_id = 1, user_address = ''0xabc'', user_groupId = None,
              user_totalDeposits = Some 0, user_creditScore = Some 100,
              user_lastDepositTime = Some 10, user_registered = Some False,
              user_isDefaulted = Some False \<rparr>"
  let ?m = "\<lparr> member_id = 1, member_groupId = 1, member_memberAddress = ''0xcd'' \<rparr>"
  let ?l = "\<lparr> loan_id = 1, loan_borrowerAddress = ''0xabc'', loan_amount = 50, loan_dueDate = 900,
              loan_repaid = Some False, loan_approved = Some False, loan_defaulted = Some False,
              loan_createdAt = Some 10 \<rparr>"
  let ?q = "\<lparr> guarantor_id = 1, guarantor_loanId = 1, guarantor_guarantorAddress = ''0xcd'',
              guarantor_approved = Some False \<rparr>"
  let ?a = "\<lparr> activity_id = 1, activity_groupId = 1, activity_userAddress = ''0xabc'',
              activity_activityType = ''join_group'', activity_description = ''joined'',
              activity_timestamp = 10 \<rparr>"
  have lower: "toLowerCase ''0xAbC'' = ''0xabc''" "toLowerCase ''0xCd'' = ''0xcd''"
    by (simp_all add: toLowerCase_def toLowerChar_def upper_lower_def)
  have u: "DatabaseStorage_createUser 10 example_user Database_new
      = Inr (?u, Database_new\<lparr> tbl_users := [?u], seq_users := 2 \<rparr>)"
    by (simp add: DatabaseStorage_createUser_def example_user_def Database_new_def orDefault_def
          lower Let_def)
  have m: "DatabaseStorage_addGroupMember example_member Database_new
      = Inr (?m, Database_new\<lparr> tbl_groupMembers := [?m], seq_groupMembers := 2 \<rparr>)"
    by (simp add: DatabaseStorage_addGroupMember_def insert_groupMember_def example_member_def
          Database_new_def lower Let_def)
  have l: "DatabaseStorage_createLoan 10 example_loan Database_new
      = Inr (?l, Database_new\<lparr> tbl_loans := [?l], seq_loans := 2 \<rparr>)"
    by (simp add: DatabaseStorage_createLoan_def example_loan_def Database_new_def orDefault_def
          lower Let_def)
  have q: "DatabaseStorage_addGuarantor example_guarantor Database_new
      = Inr (?q, Database_new\<lparr> tbl_guarantors := [?q], seq_guarantors := 2 \<rparr>)"
    by (simp add: DatabaseStorage_addGuarantor_def example_guarantor_def Database_new_def
          orDefault_def lower Let_def)
  have a: "DatabaseStorage_addActivity 10 example_activity Database_new
      = Inr (?a, Database_new\<lparr> tbl_activities := [?a], seq_activities := 2 \<rparr>)"
    by (simp add: DatabaseStorage_addActivity_def example_activity_def Database_new_def
          lower Let_def)
  note inst = address_as_stored
      [where u = example_user and s = MemStorage_new and m = example_member and now = 10
         and l = example_loan and q = example_guarantor and a = example_activity
         and d = Database_new
         and ru = ?u and du = "Database_new\<lparr> tbl_users := [?u], seq_users := 2 \<rparr>"
         and rm = ?m and dm = "Database_new\<lparr> tbl_groupMembers := [?m], seq_groupMembers := 2 \<rparr>"
         and rl = ?l and dl = "Database_new\<lparr> tbl_loans := [?l], seq_loans := 2 \<rparr>"
         and rq = ?q and dq = "Database_new\<lparr> tbl_guarantors := [?q], seq_guarantors := 2 \<rparr>"
         and ra = ?a and da = "Database_new\<lparr> tbl_activities := [?a], seq_activities := 2 \<rparr>"]
  have mem: "user_address (fst (MemStorage_createUser example_user MemStorage_new)) = ''0xabc''"
    "member_memberAddress (fst (MemStorage_addGroupMember example_member MemStorage_new)) = ''0xCd''"
    using inst by (simp_all add: example_user_def example_member_def lower)
  have raw: "user_address ?u = toLowerCase (iu_address example_user)"
    "member_memberAddress ?m = toLowerCase (im_memberAddress example_member)"
    "loan_borrowerAddress ?l = toLowerCase (il_borrowerAddress example_loan)"
    "guarantor_guarantorAddress ?q = toLowerCase (iq_guarantorAddress example_guarantor)"
    "activity_userAddress ?a = toLowerCase (ia_userAddress example_activity)"
    using inst u m l q a by blast+
  have db: "toLowerCase (iu_address example_user) = ''0xabc''"
    "toLowerCase (im_memberAddress example_member) = ''0xcd''"
    "toLowerCase (il_borrowerAddress example_loan) = ''0xabc''"
    "toLowerCase (iq_guarantorAddress example_guarantor) = ''0xcd''"
    "toLowerCase (ia_userAddress example_activity) = ''0xabc''"
    using raw by simp_all
  show ?thesis
    using u m l q a mem db by blast
qed

text \<open>
  C5. Creating a user and reading it back does not depend on the case of the address. For
  every input of \<open>createUser\<close> with address \<open>a\<close> and every case variant \<open>a'\<close> of
  \<open>a\<close>, \<open>getUser(a')\<close> on the store after the call returns the record the call
  returned: in \<open>MemStorage\<close> always, in \<open>DatabaseStorage\<close> whenever the insert
  succeeds.
\<close>

theorem createUser_getUser:
  "(case_variant a' (iu_address u) \<longrightarrow>
      MemStorage_getUser (snd (MemStorage_createUser u s)) a' = Some (fst (MemStorage_createUser u s)))
   \<and> (case_variant a' (iu_address u) \<and> DatabaseStorage_createUser now u d = Inr (r, d') \<longrightarrow>
        DatabaseStorage_getUser d' a' = Some r)"
proof (intro conjI impI)
  assume "case_variant a' (iu_address u)"
  then have "toLowerCase a' = toLowerCase (iu_address u)"
    by (rule case_variant_lower)
  then show "MemStorage_getUser (snd (MemStorage_createUser u s)) a'
      = Some (fst (MemStorage_createUser u s))"
    by (simp add: MemStorage_getUser_def MemStorage_createUser_def Let_def)
next
  assume h: "case_variant a' (iu_address u) \<and> DatabaseStorage_createUser now u d = Inr (r, d')"
  then have "toLowerCase a' = toLowerCase (iu_address u)"
    by (simp add: case_variant_lower)
  with h show "DatabaseStorage_getUser d' a' = Some r"
    using DatabaseStorage_createUser_found [of now u d r d' a'] by blast
qed

theorem createUser_getUser_witness:
  "case_variant ''0XaBc'' (iu_address example_user)
   \<and> MemStorage_getUser (snd (MemStorage_createUser example_user MemStorage_new)) ''0XaBc''
       = Some \<lparr> user_id = 1, user_address = ''0xabc'', user_groupId = None,
                user_totalDeposits = None, user_creditScore = None,
                user_lastDepositTime = None, user_registered = None, user_isDefaulted = None \<rparr>
   \<and> fst (MemStorage_createUser example_user MemStorage_new)
       = \<lparr> user_id = 1, user_address = ''0xabc'', user_groupId = None,
           user_totalDeposits = None, user_creditScore = None,
           user_lastDepositTime = None, user_registered = None, user_isDefaulted = None \<rparr>
   \<and> DatabaseStorage_createUser 10 example_user Database_new
       = Inr (\<lparr> user_id = 1, user_address = ''0xabc'', user_groupId = None,
                user_totalDeposits = Some 0, user_creditScore = Some 100,
                user_lastDepositTime = Some 10, user_registered = Some False,
                user_isDefaulted = Some False \<rparr>,
              Database_new
                \<lparr> tbl_users := [\<lparr> user_id = 1, user_address = ''0xabc'', user_groupId = None,
                                 user_totalDeposits = Some 0, user_creditScore = Some 100,
                                 user_lastDepositTime = Some 10, user_registered = Some False,
                                 user_isDefaulted = Some False \<rparr>],
                  seq_users := 2 \<rparr>)
   \<and> DatabaseStorage_getUser
        (Database_new
           \<lparr> tbl_users := [\<lparr> user_id = 1, user_address = ''0xabc'', user_groupId = None,
                            user_totalDeposits = Some 0, user_creditScore = Some 100,
                            user_lastDepositTime = Some 10, user_registered = Some False,
                            user_isDefaulted = Some False \<rparr>],
             seq_users := 2 \<rparr>) ''0XaBc''
       = Some \<lparr> user_id = 1, user_address = ''0xabc'', user_groupId = None,
                user_totalDeposits = Some 0, user_creditScore = Some 100,
                user_lastDepositTime = Some 10, user_registered = Some False,
                user_isDefaulted = Some False \<rparr>"
proof -
  let ?m = "\<lparr> user_id = 1, user_address = ''0xabc'', user_groupId = None,
              user_totalDeposits = None, user_creditScore = None,
              user_lastDepositTime = None, user_registered = None, user_isDefaulted = None \<rparr>"
  let ?u = "\<lparr> user_id = 1, user_address = ''0xabc'', user_groupId = None,
              user_totalDeposits = Some 0, user_creditScore = Some 100,
              user_lastDepositTime = Some 10, user_registered = Some False,
              user_isDefaulted = Some False \<rparr>"
  let ?d = "Database_new\<lparr> tbl_users := [?u], seq_users := 2 \<rparr>"
  have lower: "toLowerCase ''0xAbC'' = ''0xabc''"
    by (simp add: toLowerCase_def toLowerChar_def upper_lower_def)
  have cv: "case_variant ''0XaBc'' (iu_address example_user)"
    by (simp add: example_user_def case_variant_def same_letter_def upper_lower_def)
  have m: "fst (MemStorage_createUser example_user MemStorage_new) = ?m"
    by (simp add: MemStorage_createUser_def example_user_def MemStorage_new_def lower Let_def)
  have run: "DatabaseStorage_createUser 10 example_user Database_new = Inr (?u, ?d)"
    by (simp add: DatabaseStorage_createUser_def example_user_def Database_new_def orDefault_def
          lower Let_def)
  note inst = createUser_getUser
      [where a' = "''0XaBc''" and u = example_user and s = MemStorage_new and now = 10
         and d = Database_new and r = ?u and d' = ?d]
  have found: "MemStorage_getUser (snd (MemStorage_createUser example_user MemStorage_new)) ''0XaBc''
        = Some (fst (MemStorage_createUser example_user MemStorage_new))"
    "DatabaseStorage_getUser ?d ''0XaBc'' = Some ?u"
    using inst cv run by blast+
  show ?thesis
    using cv m run found by simp
qed












text \<open>
  C10. \<open>MemStorage.addVote\<close> does not need the proposal to exist. For a vote whose
  \<open>proposalId\<close> has no stored proposal, the call returns the new vote (the input with the
  next vote identifier), appends it to the votes filed under that \<open>proposalId\<close>, and changes
  nothing else but the vote counter: no proposal is written, so no tally is updated. The
  function has no error result.
\<close>

theorem MemStorage_addVote_without_proposal:
  assumes "MemStorage_getProposal s (iv_proposalId v) = None"
  shows "case MemStorage_addVote v s of (vote, s') \<Rightarrow>
           vote = \<lparr> vote_id = cid_vote (currentIds s), vote_proposalId = iv_proposalId v,
                    vote_voterAddress = iv_voterAddress v, vote_vote = iv_vote v \<rparr>
         \<and> MemStorage_getVotes s' (iv_proposalId v) = MemStorage_getVotes s (iv_proposalId v) @ [vote]
         \<and> proposals s' = proposals s
         \<and> s' = s\<lparr> votes := (votes s)(iv_proposalId v \<mapsto>
                                  MemStorage_getVotes s (iv_proposalId v) @ [vote]),
                    currentIds := (currentIds s)\<lparr> cid_vote := cid_vote (currentIds s) + 1 \<rparr> \<rparr>"
  using assms
  by (simp add: MemStorage_addVote_def MemStorage_getProposal_def MemStorage_getVotes_def Let_def)

theorem MemStorage_addVote_without_proposal_witness:
  "MemStorage_getProposal MemStorage_new 7 = None
   \<and> fst (MemStorage_addVote \<lparr> iv_proposalId = 7, iv_voterAddress = ''0xAb'', iv_vote = True \<rparr>
             MemStorage_new)
       = \<lparr> vote_id = 1, vote_proposalId = 7, vote_voterAddress = ''0xAb'', vote_vote = True \<rparr>
   \<and> MemStorage_getVotes
         (snd (MemStorage_addVote \<lparr> iv_proposalId = 7, iv_voterAddress = ''0xAb'', iv_vote = True \<rparr>
                 MemStorage_new)) 7
       = [\<lparr> vote_id = 1, vote_proposalId = 7, vote_voterAddress = ''0xAb'', vote_vote = True \<rparr>]
   \<and> MemStorage_getProposal
         (snd (MemStorage_addVote \<lparr> iv_proposalId = 7, iv_voterAddress = ''0xAb'', iv_vote = True \<rparr>
                 MemStorage_new)) 7 = None"
  using MemStorage_addVote_without_proposal
          [of MemStorage_new "\<lparr> iv_proposalId = 7, iv_voterAddress = ''0xAb'', iv_vote = True \<rparr>"]
  by (simp add: MemStorage_new_def MemStorage_getProposal_def MemStorage_getVotes_def
        split: prod.splits)

end
